theory Spec2Isabelle
  imports Main
begin

section \<open>Values shared by the task service and the dialogs\<close>

text \<open>
  A \<open>Task\<close> (\<^verbatim>\<open>../data/schema\<close>) is a row with a string \<^verbatim>\<open>id\<close>; the code reads
  no other column, so the remaining columns are one field, \<open>columns\<close>, of any type. The
  id field is called \<open>task_id\<close> because \<open>id\<close> is HOL's identity function.
\<close>

record 'f Task =
  task_id :: string
  columns :: 'f

text \<open>
  Whatever is thrown or handed back as \<^verbatim>\<open>error\<close> is read through \<^verbatim>\<open>err.message\<close>
  only: an error is its optional message. \<^verbatim>\<open>new Error(m)\<close> is \<open>JsError (Some m)\<close>.
\<close>

datatype js_error = JsError (message: "string option")

text \<open>
  \<^verbatim>\<open>err.message || fallback\<close>: a missing message and the empty string are both falsy.
\<close>

definition errorMessage :: "js_error \<Rightarrow> string \<Rightarrow> string" where
  "errorMessage err fallback =
     (case message err of
        None \<Rightarrow> fallback
      | Some m \<Rightarrow> if m = [] then fallback else m)"

text \<open>
  The awaited query of the remote client: the promise rejects with a thrown value, or
  it resolves to an object whose \<^verbatim>\<open>data\<close> and \<^verbatim>\<open>error\<close> the code destructures.
\<close>

datatype 'd awaited = Throws js_error | Returns 'd "js_error option"

text \<open>
  The opening of every \<^verbatim>\<open>try\<close> block:
  \<^verbatim>\<open>const { data, error } = await supabase...; if (error) throw error;\<close>
\<close>

definition await_query :: "'d awaited \<Rightarrow> js_error + 'd" where
  "await_query r =
     (case r of
        Throws e \<Rightarrow> Inl e
      | Returns data err \<Rightarrow> (case err of Some e \<Rightarrow> Inl e | None \<Rightarrow> Inr data))"

text \<open>The notifications handed to \<^verbatim>\<open>toast.error\<close> and \<^verbatim>\<open>toast.success\<close>.\<close>

datatype toast = ToastError string | ToastSuccess string

section \<open>The task service (useTasksService)\<close>

text \<open>
  The three \<^verbatim>\<open>useState\<close> cells of the hook, and the notifications shown so far, oldest
  first.
\<close>

record 'f service =
  tasks :: "'f Task list"
  loading :: bool
  error :: "string option"
  toasts :: "toast list"

subsection \<open>fetchTasks\<close>

text \<open>Up to the \<^verbatim>\<open>await\<close>: \<^verbatim>\<open>setLoading(true); setError(null)\<close>.\<close>

definition fetchTasks_enter :: "'f service \<Rightarrow> 'f service" where
  "fetchTasks_enter s = s\<lparr>loading := True, error := None\<rparr>"

text \<open>
  From the \<^verbatim>\<open>await\<close> on: the \<^verbatim>\<open>try\<close> body, the \<^verbatim>\<open>catch\<close> and the \<^verbatim>\<open>finally\<close>. The
  result is \<open>Inr ()\<close> when the promise resolves and \<open>Inl e\<close> when it rejects with \<open>e\<close>;
  the \<^verbatim>\<open>catch\<close> of fetchTasks has no \<^verbatim>\<open>throw\<close>.
\<close>

definition fetchTasks_resume ::
  "'f service \<Rightarrow> 'f Task list awaited \<Rightarrow> 'f service \<times> (js_error + unit)" where
  "fetchTasks_resume s r =
     (let s' =
        (case await_query r of
           Inr data \<Rightarrow> s\<lparr>tasks := data\<rparr>
         | Inl err \<Rightarrow>
             (let msg = errorMessage err ''Failed to fetch tasks, please try again later''
              in s\<lparr>toasts := toasts s @ [ToastError msg], error := Some msg\<rparr>))
      in (s'\<lparr>loading := False\<rparr>, Inr ()))"

definition fetchTasks ::
  "'f service \<Rightarrow> 'f Task list awaited \<Rightarrow> 'f service \<times> (js_error + unit)" where
  "fetchTasks s r = fetchTasks_resume (fetchTasks_enter s) r"

subsection \<open>getTaskById\<close>

text \<open>
  The fallback of getTaskById is a template literal in Chinese around the id; the
  characters are written as their UTF-8 bytes.
\<close>

definition getTaskById_fallback :: "string \<Rightarrow> string" where
  "getTaskById_fallback i =
     [CHR 0xE8, CHR 0x8E, CHR 0xB7, CHR 0xE5, CHR 0x8F, CHR 0x96,
      CHR 0xE4, CHR 0xBB, CHR 0xBB, CHR 0xE5, CHR 0x8A, CHR 0xA1] @ '' '' @ i @ '' '' @
     [CHR 0xE5, CHR 0xA4, CHR 0xB1, CHR 0xE8, CHR 0xB4, CHR 0xA5]"

definition getTaskById ::
  "'f service \<Rightarrow> string \<Rightarrow> 'f Task awaited \<Rightarrow> 'f service \<times> (js_error + 'f Task)" where
  "getTaskById s i r =
     (case await_query r of
        Inr data \<Rightarrow> (s, Inr data)
      | Inl err \<Rightarrow>
          (s\<lparr>toasts := toasts s @ [ToastError (errorMessage err (getTaskById_fallback i))]\<rparr>,
           Inl err))"

subsection \<open>createTask\<close>

text \<open>
  \<open>task\<close> is the row without its id (\<^verbatim>\<open>Omit<Task, 'id'>\<close>); it goes to the remote store
  and is not read again.
\<close>

definition createTask ::
  "'f service \<Rightarrow> 'f \<Rightarrow> 'f Task awaited \<Rightarrow> 'f service \<times> (js_error + 'f Task)" where
  "createTask s task r =
     (case await_query r of
        Inr newTask \<Rightarrow>
          (s\<lparr>tasks := tasks s @ [newTask],
             toasts := toasts s @ [ToastSuccess ''Task created successfully'']\<rparr>,
           Inr newTask)
      | Inl err \<Rightarrow>
          (s\<lparr>toasts := toasts s @ [ToastError (errorMessage err ''Failed to create task'')]\<rparr>,
           Inl err))"

subsection \<open>updateTask\<close>

text \<open>
  updateTask tests its \<^verbatim>\<open>data\<close> at run time (\<^verbatim>\<open>!data\<close>, \<^verbatim>\<open>Array.isArray(data)\<close>,
  \<^verbatim>\<open>data.length\<close>), so it is a value that may be null, one row or an array of rows.
\<close>

datatype 'a js_data = JsNull | JsObject 'a | JsArray "'a list"

definition not_found :: "string \<Rightarrow> js_error" where
  "not_found i = JsError (Some (''Task with ID '' @ i @ '' not found''))"

text \<open>
  Lines 81 to 85: null and the empty array throw the not-found error; otherwise the
  updated task is the first element of an array, or the object itself.
\<close>

fun updatedTask :: "string \<Rightarrow> 'a js_data \<Rightarrow> js_error + 'a" where
  "updatedTask i JsNull = Inl (not_found i)"
| "updatedTask i (JsArray []) = Inl (not_found i)"
| "updatedTask i (JsArray (t # ts)) = Inr t"
| "updatedTask i (JsObject t) = Inr t"

definition updateTask_try :: "string \<Rightarrow> 'f Task js_data awaited \<Rightarrow> js_error + 'f Task" where
  "updateTask_try i r =
     (case await_query r of
        Inl e \<Rightarrow> Inl e
      | Inr data \<Rightarrow> updatedTask i data)"

text \<open>\<open>task\<close> is the patch (\<^verbatim>\<open>Partial<Task>\<close>) sent to the remote store.\<close>

definition updateTask ::
  "'f service \<Rightarrow> string \<Rightarrow> 'p \<Rightarrow> 'f Task js_data awaited \<Rightarrow> 'f service \<times> (js_error + 'f Task)" where
  "updateTask s i task r =
     (case updateTask_try i r of
        Inr t \<Rightarrow>
          (s\<lparr>toasts := toasts s @ [ToastSuccess ''Task updated successfully'']\<rparr>, Inr t)
      | Inl err \<Rightarrow>
          (s\<lparr>toasts := toasts s @ [ToastError (errorMessage err (''Failed to update task '' @ i))]\<rparr>,
           Inl err))"

subsection \<open>deleteTask\<close>

definition deleteTask ::
  "'f service \<Rightarrow> string \<Rightarrow> 'd awaited \<Rightarrow> 'f service \<times> (js_error + unit)" where
  "deleteTask s i r =
     (case await_query r of
        Inr data \<Rightarrow>
          (s\<lparr>tasks := filter (\<lambda>t. task_id t \<noteq> i) (tasks s),
             toasts := toasts s @ [ToastSuccess ''Task deleted successfully'']\<rparr>,
           Inr ())
      | Inl err \<Rightarrow>
          (s\<lparr>toasts := toasts s @ [ToastError (errorMessage err (''Failed to delete task '' @ i))]\<rparr>,
           Inl err))"

section \<open>The context and its provider (tasks-context)\<close>

datatype TasksDialogType = Create | Update | Delete | Import

text \<open>
  The data of \<open>TasksContextType\<close>: the open dialog, the current row, and the cells the
  provider copies from the service. Its function members are the operations above.
\<close>

record 'f TasksContextType =
  opened :: "TasksDialogType option"
  currentRow :: "'f Task option"
  service :: "'f service"

text \<open>
  \<^verbatim>\<open>React.useContext\<close>: the value of the nearest enclosing provider, and the default
  given to \<^verbatim>\<open>createContext\<close> when there is none. \<open>providers\<close> lists the values of the
  enclosing providers, nearest first.
\<close>

definition useContext :: "'c \<Rightarrow> 'c list \<Rightarrow> 'c" where
  "useContext dflt providers = (case providers of [] \<Rightarrow> dflt | v # vs \<Rightarrow> v)"

text \<open>\<^verbatim>\<open>React.createContext<TasksContextType | null>(null)\<close>: the default is null.\<close>

definition TasksContext_default :: "'c option" where
  "TasksContext_default = None"

text \<open>TasksProvider hands its object literal to the provider: never null.\<close>

definition TasksProvider :: "'f TasksContextType \<Rightarrow> 'f TasksContextType option" where
  "TasksProvider v = Some v"

definition useTasks :: "'c option list \<Rightarrow> js_error + 'c" where
  "useTasks providers =
     (case useContext TasksContext_default providers of
        None \<Rightarrow> Inl (JsError (Some ''useTasks has to be used within <TasksContext>''))
      | Some tasksContext \<Rightarrow> Inr tasksContext)"

section \<open>The dialogs (TasksDialogs)\<close>

text \<open>
  What TasksDialogs renders: each element with its key and its \<^verbatim>\<open>open\<close> prop, the
  drawer with its \<^verbatim>\<open>currentRow\<close> prop (absent in the create drawer), the confirm dialog
  with its title and confirm text.
\<close>

datatype 'f element =
    TasksMutateDrawer string bool "'f Task option"
  | TasksImportDialog string bool
  | ConfirmDialog string bool string string

definition TasksDialogs_render :: "'f TasksContextType \<Rightarrow> 'f element list" where
  "TasksDialogs_render c =
     [TasksMutateDrawer ''task-create'' (opened c = Some Create) None,
      TasksImportDialog ''tasks-import'' (opened c = Some Import)] @
     (case currentRow c of
        None \<Rightarrow> []
      | Some row \<Rightarrow>
          [TasksMutateDrawer (''task-update-'' @ task_id row) (opened c = Some Update) (Some row),
           ConfirmDialog ''task-delete'' (opened c = Some Delete)
             (''Delete this task: '' @ task_id row @ '' ?'') ''Delete''])"

text \<open>The component: \<^verbatim>\<open>useTasks()\<close> first, which may throw, then the elements.\<close>

definition TasksDialogs :: "'f TasksContextType option list \<Rightarrow> js_error + 'f element list" where
  "TasksDialogs providers =
     (case useTasks providers of
        Inl e \<Rightarrow> Inl e
      | Inr c \<Rightarrow> Inr (TasksDialogs_render c))"

text \<open>
  What \<^verbatim>\<open>console.error('Failed to delete task', error)\<close> writes.
\<close>

datatype console_entry = ConsoleError string js_error

text \<open>
  \<^verbatim>\<open>handleConfirm\<close> of the confirm dialog, for the row the dialog was rendered with.
  \<open>setOpen\<close> comes from the hook \<^verbatim>\<open>useDialogState\<close>, which is not among the sources: it
  is a parameter, \<open>setOpen str prev\<close> being the open dialog after \<^verbatim>\<open>setOpen(str)\<close> when
  it was \<open>prev\<close>. The result is the context after the handler and the lines it wrote to
  the console; the handler's promise never rejects.
\<close>

definition handleConfirm ::
  "(TasksDialogType option \<Rightarrow> TasksDialogType option \<Rightarrow> TasksDialogType option) \<Rightarrow>
   'f Task \<Rightarrow> 'f TasksContextType \<Rightarrow> 'd awaited \<Rightarrow> 'f TasksContextType \<times> console_entry list" where
  "handleConfirm setOpen row c r =
     (case deleteTask (service c) (task_id row) r of
        (s', Inr u) \<Rightarrow>
          (c\<lparr>service := s', opened := setOpen None (opened c), currentRow := None\<rparr>, [])
      | (s', Inl err) \<Rightarrow>
          (c\<lparr>service := s'\<rparr>, [ConsoleError ''Failed to delete task'' err]))"

section \<open>The operations, case by case\<close>

lemma errorMessage_simps:
  "errorMessage (JsError None) fb = fb"
  "errorMessage (JsError (Some m)) fb = (if m = [] then fb else m)"
  by (simp_all add: errorMessage_def)

lemma fetchTasks_on_failure:
  "await_query r = Inl e \<Longrightarrow>
   fetchTasks s r =
     (s\<lparr>loading := False,
        error := Some (errorMessage e ''Failed to fetch tasks, please try again later''),
        toasts := toasts s @
          [ToastError (errorMessage e ''Failed to fetch tasks, please try again later'')]\<rparr>,
      Inr ())"
  by (simp add: fetchTasks_def fetchTasks_resume_def fetchTasks_enter_def Let_def)

lemma fetchTasks_on_success:
  "await_query r = Inr rows \<Longrightarrow>
   fetchTasks s r = (s\<lparr>loading := False, error := None, tasks := rows\<rparr>, Inr ())"
  by (simp add: fetchTasks_def fetchTasks_resume_def fetchTasks_enter_def Let_def)

lemma getTaskById_on_failure:
  "await_query r = Inl e \<Longrightarrow>
   getTaskById s i r =
     (s\<lparr>toasts := toasts s @ [ToastError (errorMessage e (getTaskById_fallback i))]\<rparr>, Inl e)"
  by (simp add: getTaskById_def)

lemma getTaskById_rejects:
  "snd (getTaskById s i r) = Inl e \<Longrightarrow> await_query r = Inl e"
  by (simp add: getTaskById_def split: sum.splits)

lemma createTask_on_failure:
  "await_query r = Inl e \<Longrightarrow>
   createTask s task r =
     (s\<lparr>toasts := toasts s @ [ToastError (errorMessage e ''Failed to create task'')]\<rparr>, Inl e)"
  by (simp add: createTask_def)

lemma createTask_on_success:
  "await_query r = Inr newTask \<Longrightarrow>
   createTask s task r =
     (s\<lparr>tasks := tasks s @ [newTask],
        toasts := toasts s @ [ToastSuccess ''Task created successfully'']\<rparr>, Inr newTask)"
  by (simp add: createTask_def)

lemma createTask_rejects:
  "snd (createTask s task r) = Inl e \<Longrightarrow> await_query r = Inl e"
  by (simp add: createTask_def split: sum.splits)

lemma updateTask_on_failure:
  "updateTask_try i r = Inl e \<Longrightarrow>
   updateTask s i task r =
     (s\<lparr>toasts := toasts s @ [ToastError (errorMessage e (''Failed to update task '' @ i))]\<rparr>,
      Inl e)"
  by (simp add: updateTask_def)

lemma updateTask_on_success:
  "updateTask_try i r = Inr t \<Longrightarrow>
   updateTask s i task r =
     (s\<lparr>toasts := toasts s @ [ToastSuccess ''Task updated successfully'']\<rparr>, Inr t)"
  by (simp add: updateTask_def)

lemma updateTask_try_transport:
  "await_query r = Inl e \<Longrightarrow> updateTask_try i r = Inl e"
  by (simp add: updateTask_try_def)

lemma updateTask_try_zero_rows:
  "await_query r = Inr d \<Longrightarrow> d = JsNull \<or> d = JsArray [] \<Longrightarrow>
   updateTask_try i r = Inl (not_found i)"
  by (auto simp: updateTask_try_def)

lemma updatedTask_Inl:
  "updatedTask i d = Inl e \<Longrightarrow> (d = JsNull \<or> d = JsArray []) \<and> e = not_found i"
  by (cases "(i, d)" rule: updatedTask.cases) auto

lemma updateTask_try_Inl:
  "updateTask_try i r = Inl e \<Longrightarrow>
   await_query r = Inl e \<or>
   (await_query r = Inr JsNull \<or> await_query r = Inr (JsArray [])) \<and> e = not_found i"
  by (auto simp: updateTask_try_def split: sum.splits dest: updatedTask_Inl)

lemma updateTask_rejects:
  "snd (updateTask s i task r) = Inl e \<Longrightarrow> updateTask_try i r = Inl e"
  by (simp add: updateTask_def split: sum.splits)

lemma deleteTask_on_failure:
  "await_query r = Inl e \<Longrightarrow>
   deleteTask s i r =
     (s\<lparr>toasts := toasts s @ [ToastError (errorMessage e (''Failed to delete task '' @ i))]\<rparr>,
      Inl e)"
  by (simp add: deleteTask_def)

lemma deleteTask_on_success:
  "await_query r = Inr d \<Longrightarrow>
   deleteTask s i r =
     (s\<lparr>tasks := filter (\<lambda>t. task_id t \<noteq> i) (tasks s),
        toasts := toasts s @ [ToastSuccess ''Task deleted successfully'']\<rparr>, Inr ())"
  by (simp add: deleteTask_def)

lemma deleteTask_rejects:
  "snd (deleteTask s i r) = Inl e \<Longrightarrow> await_query r = Inl e"
  by (simp add: deleteTask_def split: sum.splits)

section \<open>updateTask on zero rows\<close>

text \<open>
  C1. When the update call reports no error but its data is null or an empty array,
  updateTask rejects, for every id and patch, with the error whose message is
  "Task with ID <id> not found"; it does not resolve.
\<close>

theorem updateTask_zero_rows_not_found:
  "data = JsNull \<or> data = JsArray [] \<Longrightarrow>
   snd (updateTask s i task (Returns data None)) =
     Inl (JsError (Some (''Task with ID '' @ i @ '' not found'')))"
  by (auto simp: updateTask_def updateTask_try_def await_query_def not_found_def)

theorem updateTask_zero_rows_not_found_witness:
  "snd (updateTask \<lparr>tasks = [], loading = False, error = None, toasts = []\<rparr> ''7'' ()
         (Returns (JsArray ([] :: unit Task list)) None)) =
     Inl (JsError (Some ''Task with ID 7 not found''))"
  using updateTask_zero_rows_not_found
    [of "JsArray ([] :: unit Task list)"
        "\<lparr>tasks = [], loading = False, error = None, toasts = []\<rparr>" "''7''" "()"]
  by simp

section \<open>A failed delete in the confirm dialog\<close>

text \<open>
  C2, as the code has it. When the deleteTask call of handleConfirm fails, the handler
  leaves the open dialog and the current row as they were: the two setters sit in the
  \<^verbatim>\<open>try\<close> block after the \<^verbatim>\<open>await\<close> and are skipped. The error is written to the
  console once and goes no further. This holds whatever \<open>setOpen\<close> does.
\<close>

theorem handleConfirm_failure_keeps_dialog_open:
  "snd (deleteTask (service c) (task_id row) r) = Inl e \<Longrightarrow>
   opened (fst (handleConfirm setOpen row c r)) = opened c \<and>
   currentRow (fst (handleConfirm setOpen row c r)) = currentRow c \<and>
   service (fst (handleConfirm setOpen row c r)) = fst (deleteTask (service c) (task_id row) r) \<and>
   snd (handleConfirm setOpen row c r) = [ConsoleError ''Failed to delete task'' e]"
  by (cases "deleteTask (service c) (task_id row) r") (auto simp: handleConfirm_def)

theorem handleConfirm_failure_keeps_dialog_open_witness:
  "opened (fst (handleConfirm (\<lambda>str prev. str) \<lparr>task_id = ''5'', columns = ''E''\<rparr>
      \<lparr>opened = Some Delete, currentRow = Some \<lparr>task_id = ''5'', columns = ''E''\<rparr>,
        service = \<lparr>tasks = [], loading = False, error = None, toasts = []\<rparr>\<rparr>
      (Throws (JsError None) :: unit awaited))) = Some Delete \<and>
   currentRow (fst (handleConfirm (\<lambda>str prev. str) \<lparr>task_id = ''5'', columns = ''E''\<rparr>
      \<lparr>opened = Some Delete, currentRow = Some \<lparr>task_id = ''5'', columns = ''E''\<rparr>,
        service = \<lparr>tasks = [], loading = False, error = None, toasts = []\<rparr>\<rparr>
      (Throws (JsError None) :: unit awaited))) = Some \<lparr>task_id = ''5'', columns = ''E''\<rparr> \<and>
   snd (handleConfirm (\<lambda>str prev. str) \<lparr>task_id = ''5'', columns = ''E''\<rparr>
      \<lparr>opened = Some Delete, currentRow = Some \<lparr>task_id = ''5'', columns = ''E''\<rparr>,
        service = \<lparr>tasks = [], loading = False, error = None, toasts = []\<rparr>\<rparr>
      (Throws (JsError None) :: unit awaited)) =
     [ConsoleError ''Failed to delete task'' (JsError None)]"
  using handleConfirm_failure_keeps_dialog_open
    [where c = "\<lparr>opened = Some Delete, currentRow = Some \<lparr>task_id = ''5'', columns = ''E''\<rparr>,
        service = \<lparr>tasks = [], loading = False, error = None, toasts = []\<rparr>\<rparr>"
       and row = "\<lparr>task_id = ''5'', columns = ''E''\<rparr>"
       and r = "Throws (JsError None) :: unit awaited"
       and e = "JsError None"
       and setOpen = "\<lambda>str prev. str"]
  by (simp add: deleteTask_def await_query_def)

text \<open>
  The claim as written fails: with the delete dialog open on row 1 and a delete that the
  remote store refuses, the dialog is still open on row 1 after the handler.
\<close>

theorem handleConfirm_failure_closes_counterexample:
  "opened (fst (handleConfirm (\<lambda>str prev. str) \<lparr>task_id = ''1'', columns = ''A''\<rparr>
      \<lparr>opened = Some Delete, currentRow = Some \<lparr>task_id = ''1'', columns = ''A''\<rparr>,
        service = \<lparr>tasks = [\<lparr>task_id = ''1'', columns = ''A''\<rparr>], loading = False,
                    error = None, toasts = []\<rparr>\<rparr>
      (Returns () (Some (JsError (Some ''permission denied'')))))) = Some Delete \<and>
   currentRow (fst (handleConfirm (\<lambda>str prev. str) \<lparr>task_id = ''1'', columns = ''A''\<rparr>
      \<lparr>opened = Some Delete, currentRow = Some \<lparr>task_id = ''1'', columns = ''A''\<rparr>,
        service = \<lparr>tasks = [\<lparr>task_id = ''1'', columns = ''A''\<rparr>], loading = False,
                    error = None, toasts = []\<rparr>\<rparr>
      (Returns () (Some (JsError (Some ''permission denied'')))))) =
     Some \<lparr>task_id = ''1'', columns = ''A''\<rparr>"
  by (simp add: handleConfirm_def deleteTask_def await_query_def)

section \<open>updateTask and the cache\<close>

text \<open>
  C3. A successful updateTask changes nothing of the service but the notifications: the
  cache is what it was, so the updated row is not written back. A successful createTask
  does change the cache (it appends the new row), and a successful deleteTask filters it.
\<close>

theorem updateTask_leaves_cache:
  "(snd (updateTask s i task r) = Inr t \<longrightarrow>
      tasks (fst (updateTask s i task r)) = tasks s \<and>
      fst (updateTask s i task r) =
        s\<lparr>toasts := toasts s @ [ToastSuccess ''Task updated successfully'']\<rparr>) \<and>
   (snd (createTask s new rb) = Inr tb \<longrightarrow>
      tasks (fst (createTask s new rb)) = tasks s @ [tb]) \<and>
   (snd (deleteTask s i rc) = Inr u \<longrightarrow>
      tasks (fst (deleteTask s i rc)) = filter (\<lambda>x. task_id x \<noteq> i) (tasks s))"
  by (auto simp: updateTask_def createTask_def deleteTask_def split: sum.splits)

theorem updateTask_leaves_cache_witness:
  "tasks (fst (updateTask
      \<lparr>tasks = [\<lparr>task_id = ''1'', columns = ''old''\<rparr>], loading = False, error = None, toasts = []\<rparr>
      ''1'' ''new'' (Returns (JsArray [\<lparr>task_id = ''1'', columns = ''new''\<rparr>]) None))) =
     [\<lparr>task_id = ''1'', columns = ''old''\<rparr>] \<and>
   tasks (fst (createTask
      \<lparr>tasks = [\<lparr>task_id = ''1'', columns = ''old''\<rparr>], loading = False, error = None, toasts = []\<rparr>
      ''B'' (Returns \<lparr>task_id = ''2'', columns = ''B''\<rparr> None))) =
     [\<lparr>task_id = ''1'', columns = ''old''\<rparr>, \<lparr>task_id = ''2'', columns = ''B''\<rparr>] \<and>
   tasks (fst (deleteTask
      \<lparr>tasks = [\<lparr>task_id = ''1'', columns = ''old''\<rparr>], loading = False, error = None, toasts = []\<rparr>
      ''1'' (Returns () None))) = []"
  using updateTask_leaves_cache
    [where s = "\<lparr>tasks = [\<lparr>task_id = ''1'', columns = ''old''\<rparr>], loading = False,
                  error = None, toasts = []\<rparr>"
       and i = "''1''" and task = "''new''"
       and r = "Returns (JsArray [\<lparr>task_id = ''1'', columns = ''new''\<rparr>]) None"
       and t = "\<lparr>task_id = ''1'', columns = ''new''\<rparr>"
       and new = "''B''" and rb = "Returns \<lparr>task_id = ''2'', columns = ''B''\<rparr> None"
       and tb = "\<lparr>task_id = ''2'', columns = ''B''\<rparr>"
       and rc = "Returns () None" and u = "()"]
  by (simp add: updateTask_def updateTask_try_def createTask_def deleteTask_def await_query_def)

section \<open>fetchTasks\<close>

text \<open>
  C4. When the select of fetchTasks fails, the cache after the call is the cache before
  it (and it is untouched at the suspension point too), the error cell holds the message
  shown, and fetchTasks resolves; when the select succeeds, the cache is the fetched rows.
\<close>

theorem fetchTasks_failure_keeps_cache:
  "(await_query ra = Inl e \<longrightarrow>
      tasks (fst (fetchTasks s ra)) = tasks s \<and>
      error (fst (fetchTasks s ra)) =
        Some (errorMessage e ''Failed to fetch tasks, please try again later'')) \<and>
   (await_query rb = Inr rows \<longrightarrow> tasks (fst (fetchTasks s rb)) = rows) \<and>
   tasks (fetchTasks_enter s) = tasks s \<and>
   snd (fetchTasks s ra) = Inr ()"
  by (auto simp: fetchTasks_def fetchTasks_resume_def fetchTasks_enter_def Let_def)

theorem fetchTasks_failure_keeps_cache_witness:
  "tasks (fst (fetchTasks
      \<lparr>tasks = [\<lparr>task_id = ''1'', columns = ''A''\<rparr>], loading = False, error = None, toasts = []\<rparr>
      (Returns [] (Some (JsError (Some ''timeout'')))))) = [\<lparr>task_id = ''1'', columns = ''A''\<rparr>] \<and>
   error (fst (fetchTasks
      \<lparr>tasks = [\<lparr>task_id = ''1'', columns = ''A''\<rparr>], loading = False, error = None, toasts = []\<rparr>
      (Returns [] (Some (JsError (Some ''timeout'')))))) = Some ''timeout'' \<and>
   tasks (fst (fetchTasks
      \<lparr>tasks = [\<lparr>task_id = ''1'', columns = ''A''\<rparr>], loading = False, error = None, toasts = []\<rparr>
      (Returns [\<lparr>task_id = ''2'', columns = ''B''\<rparr>] None))) = [\<lparr>task_id = ''2'', columns = ''B''\<rparr>]"
  using fetchTasks_failure_keeps_cache
    [where s = "\<lparr>tasks = [\<lparr>task_id = ''1'', columns = ''A''\<rparr>], loading = False,
                  error = None, toasts = []\<rparr>"
       and ra = "Returns [] (Some (JsError (Some ''timeout'')))"
       and e = "JsError (Some ''timeout'')"
       and rb = "Returns [\<lparr>task_id = ''2'', columns = ''B''\<rparr>] None"
       and rows = "[\<lparr>task_id = ''2'', columns = ''B''\<rparr>]"]
  by (simp add: await_query_def errorMessage_def)

section \<open>createTask\<close>

text \<open>
  C5, as the code has it. A successful createTask appends the returned record: the cache
  is the prior cache followed by it, so it is the last element. It is the only record
  equal to it, and the only record of its id, exactly when the prior cache held none;
  createTask does not look. On failure the cache is unchanged.
\<close>

theorem createTask_appends_at_tail:
  "(await_query ra = Inr newTask \<longrightarrow>
      snd (createTask s task ra) = Inr newTask \<and>
      tasks (fst (createTask s task ra)) = tasks s @ [newTask] \<and>
      (count_list (tasks (fst (createTask s task ra))) newTask = 1 \<longleftrightarrow>
         newTask \<notin> set (tasks s)) \<and>
      (length (filter (\<lambda>t. task_id t = task_id newTask) (tasks (fst (createTask s task ra)))) = 1 \<longleftrightarrow>
         filter (\<lambda>t. task_id t = task_id newTask) (tasks s) = [])) \<and>
   (await_query rb = Inl e \<longrightarrow>
      snd (createTask s task rb) = Inl e \<and> tasks (fst (createTask s task rb)) = tasks s)"
  by (auto simp: createTask_def count_list_0_iff)

theorem createTask_appends_at_tail_witness:
  "tasks (fst (createTask
      \<lparr>tasks = [\<lparr>task_id = ''1'', columns = ''A''\<rparr>], loading = False, error = None, toasts = []\<rparr>
      ''B'' (Returns \<lparr>task_id = ''2'', columns = ''B''\<rparr> None))) =
     [\<lparr>task_id = ''1'', columns = ''A''\<rparr>, \<lparr>task_id = ''2'', columns = ''B''\<rparr>] \<and>
   count_list (tasks (fst (createTask
      \<lparr>tasks = [\<lparr>task_id = ''1'', columns = ''A''\<rparr>], loading = False, error = None, toasts = []\<rparr>
      ''B'' (Returns \<lparr>task_id = ''2'', columns = ''B''\<rparr> None))))
      \<lparr>task_id = ''2'', columns = ''B''\<rparr> = 1 \<and>
   tasks (fst (createTask
      \<lparr>tasks = [\<lparr>task_id = ''1'', columns = ''A''\<rparr>], loading = False, error = None, toasts = []\<rparr>
      ''B'' (Throws (JsError (Some ''offline''))))) = [\<lparr>task_id = ''1'', columns = ''A''\<rparr>]"
  using createTask_appends_at_tail
    [where s = "\<lparr>tasks = [\<lparr>task_id = ''1'', columns = ''A''\<rparr>], loading = False,
                  error = None, toasts = []\<rparr>"
       and task = "''B''"
       and ra = "Returns \<lparr>task_id = ''2'', columns = ''B''\<rparr> None"
       and newTask = "\<lparr>task_id = ''2'', columns = ''B''\<rparr>"
       and rb = "Throws (JsError (Some ''offline''))"
       and e = "JsError (Some ''offline'')"]
  by (simp add: await_query_def)

text \<open>
  The claim as written fails for a prior cache that already holds the record (a
  fetchTasks that resolved while the insert was in flight put it there): after the call
  it occurs twice.
\<close>

theorem createTask_exactly_once_counterexample:
  "tasks (fst (createTask
      \<lparr>tasks = [\<lparr>task_id = ''1'', columns = ''A''\<rparr>], loading = False, error = None, toasts = []\<rparr>
      ''A'' (Returns \<lparr>task_id = ''1'', columns = ''A''\<rparr> None))) =
     [\<lparr>task_id = ''1'', columns = ''A''\<rparr>, \<lparr>task_id = ''1'', columns = ''A''\<rparr>] \<and>
   count_list (tasks (fst (createTask
      \<lparr>tasks = [\<lparr>task_id = ''1'', columns = ''A''\<rparr>], loading = False, error = None, toasts = []\<rparr>
      ''A'' (Returns \<lparr>task_id = ''1'', columns = ''A''\<rparr> None))))
      \<lparr>task_id = ''1'', columns = ''A''\<rparr> = 2"
  by (simp add: createTask_def await_query_def)

section \<open>deleteTask\<close>

text \<open>
  C6. After a successful deleteTask of id i no record of the cache has id i, and the
  cache is the prior cache with the records of id i left out, the others in their
  order. After a failed deleteTask the cache is the prior cache.
\<close>

theorem deleteTask_removes_by_id:
  "(snd (deleteTask s i ra) = Inr u \<longrightarrow>
      (\<forall>t \<in> set (tasks (fst (deleteTask s i ra))). task_id t \<noteq> i) \<and>
      tasks (fst (deleteTask s i ra)) = filter (\<lambda>t. task_id t \<noteq> i) (tasks s)) \<and>
   (snd (deleteTask s i rb) = Inl e \<longrightarrow> tasks (fst (deleteTask s i rb)) = tasks s)"
  by (auto simp: deleteTask_def split: sum.splits)

theorem deleteTask_removes_by_id_witness:
  "tasks (fst (deleteTask
      \<lparr>tasks = [\<lparr>task_id = ''1'', columns = ''A''\<rparr>, \<lparr>task_id = ''2'', columns = ''B''\<rparr>,
                 \<lparr>task_id = ''3'', columns = ''C''\<rparr>],
        loading = False, error = None, toasts = []\<rparr>
      ''2'' (Returns () None))) =
     [\<lparr>task_id = ''1'', columns = ''A''\<rparr>, \<lparr>task_id = ''3'', columns = ''C''\<rparr>] \<and>
   tasks (fst (deleteTask
      \<lparr>tasks = [\<lparr>task_id = ''1'', columns = ''A''\<rparr>, \<lparr>task_id = ''2'', columns = ''B''\<rparr>,
                 \<lparr>task_id = ''3'', columns = ''C''\<rparr>],
        loading = False, error = None, toasts = []\<rparr>
      ''2'' (Returns () (Some (JsError (Some ''denied'')))))) =
     [\<lparr>task_id = ''1'', columns = ''A''\<rparr>, \<lparr>task_id = ''2'', columns = ''B''\<rparr>,
      \<lparr>task_id = ''3'', columns = ''C''\<rparr>]"
  using deleteTask_removes_by_id
    [where s = "\<lparr>tasks = [\<lparr>task_id = ''1'', columns = ''A''\<rparr>, \<lparr>task_id = ''2'', columns = ''B''\<rparr>,
                 \<lparr>task_id = ''3'', columns = ''C''\<rparr>],
        loading = False, error = None, toasts = []\<rparr>"
       and i = "''2''" and ra = "Returns () None" and u = "()"
       and rb = "Returns () (Some (JsError (Some ''denied'')))"
       and e = "JsError (Some ''denied'')"]
  by (simp add: deleteTask_def await_query_def)

section \<open>Notifications on failure\<close>

text \<open>
  C7, as the code has it. A failed operation adds exactly one notification, an error,
  and changes nothing else of the service but, in fetchTasks, the loading and error
  cells. Its text is the message of the error thrown when that is a non-empty string,
  and the fallback of the operation otherwise; the fallback is fixed for fetchTasks and
  createTask and is built around the id for getTaskById, updateTask and deleteTask. The
  error thrown is the one the remote call gave, or, when updateTask got null or no row
  and no error, the error built there, whose message "Task with ID <id> not found" is
  then the text shown. getTaskById, createTask, updateTask and deleteTask reject with
  the error thrown, and reject in no other case; fetchTasks resolves and records the
  text in the error cell.
\<close>

theorem failure_notifies_once:
  "(await_query ra = Inl e \<longrightarrow>
      fetchTasks s ra =
        (s\<lparr>loading := False,
           error := Some (errorMessage e ''Failed to fetch tasks, please try again later''),
           toasts := toasts s @
             [ToastError (errorMessage e ''Failed to fetch tasks, please try again later'')]\<rparr>,
         Inr ())) \<and>
   (await_query rb = Inl e \<longrightarrow>
      getTaskById s i rb =
        (s\<lparr>toasts := toasts s @ [ToastError (errorMessage e (getTaskById_fallback i))]\<rparr>, Inl e)) \<and>
   (await_query rb = Inl e \<longrightarrow>
      createTask s task rb =
        (s\<lparr>toasts := toasts s @ [ToastError (errorMessage e ''Failed to create task'')]\<rparr>, Inl e)) \<and>
   (await_query rc = Inl e \<longrightarrow>
      updateTask s i patch rc =
        (s\<lparr>toasts := toasts s @ [ToastError (errorMessage e (''Failed to update task '' @ i))]\<rparr>,
         Inl e)) \<and>
   (await_query rz = Inr JsNull \<or> await_query rz = Inr (JsArray []) \<longrightarrow>
      updateTask s i patch rz =
        (s\<lparr>toasts := toasts s @ [ToastError (''Task with ID '' @ i @ '' not found'')]\<rparr>,
         Inl (JsError (Some (''Task with ID '' @ i @ '' not found''))))) \<and>
   (await_query rd = Inl e \<longrightarrow>
      deleteTask s i rd =
        (s\<lparr>toasts := toasts s @ [ToastError (errorMessage e (''Failed to delete task '' @ i))]\<rparr>,
         Inl e)) \<and>
   (snd (getTaskById s i rb) = Inl e \<longrightarrow> await_query rb = Inl e) \<and>
   (snd (createTask s task rb) = Inl e \<longrightarrow> await_query rb = Inl e) \<and>
   (snd (updateTask s i patch rc) = Inl e \<longrightarrow>
      await_query rc = Inl e \<or>
      (await_query rc = Inr JsNull \<or> await_query rc = Inr (JsArray [])) \<and>
        e = JsError (Some (''Task with ID '' @ i @ '' not found''))) \<and>
   (snd (deleteTask s i rd) = Inl e \<longrightarrow> await_query rd = Inl e) \<and>
   errorMessage (JsError None) fb = fb \<and>
   errorMessage (JsError (Some m)) fb = (if m = [] then fb else m)"
proof -
  have zero: "updateTask s i patch rz =
        (s\<lparr>toasts := toasts s @ [ToastError (''Task with ID '' @ i @ '' not found'')]\<rparr>,
         Inl (JsError (Some (''Task with ID '' @ i @ '' not found''))))"
    if "await_query rz = Inr JsNull \<or> await_query rz = Inr (JsArray [])"
  proof -
    from that have "updateTask_try i rz = Inl (not_found i)"
      by (auto intro: updateTask_try_zero_rows)
    then show ?thesis
      by (simp add: updateTask_on_failure) (simp add: not_found_def errorMessage_simps)
  qed
  have rej: "await_query rc = Inl e \<or>
      (await_query rc = Inr JsNull \<or> await_query rc = Inr (JsArray [])) \<and>
        e = JsError (Some (''Task with ID '' @ i @ '' not found''))"
    if "snd (updateTask s i patch rc) = Inl e"
    using updateTask_try_Inl [OF updateTask_rejects [OF that]] by (simp add: not_found_def)
  show ?thesis
    apply (intro conjI impI)
    subgoal by (simp add: fetchTasks_on_failure)
    subgoal by (simp add: getTaskById_on_failure)
    subgoal by (simp add: createTask_on_failure)
    subgoal by (simp add: updateTask_on_failure updateTask_try_transport)
    subgoal by (rule zero)
    subgoal by (simp add: deleteTask_on_failure)
    subgoal by (rule getTaskById_rejects)
    subgoal by (rule createTask_rejects)
    subgoal by (rule rej)
    subgoal by (rule deleteTask_rejects)
    subgoal by (simp add: errorMessage_simps)
    subgoal by (simp add: errorMessage_simps)
    done
qed

theorem failure_notifies_once_witness:
  "fetchTasks \<lparr>tasks = [], loading = False, error = None, toasts = []\<rparr>
      (Throws (JsError (Some ''offline'')) :: string Task list awaited) =
     (\<lparr>tasks = [], loading = False, error = Some ''offline'', toasts = [ToastError ''offline'']\<rparr>,
      Inr ()) \<and>
   createTask \<lparr>tasks = [], loading = False, error = None, toasts = []\<rparr> ''A''
      (Returns \<lparr>task_id = ''0'', columns = ''none''\<rparr> (Some (JsError (Some ''offline'')))) =
     (\<lparr>tasks = [], loading = False, error = None, toasts = [ToastError ''offline'']\<rparr>,
      Inl (JsError (Some ''offline''))) \<and>
   getTaskById \<lparr>tasks = [], loading = False, error = None, toasts = []\<rparr> ''4''
      (Returns \<lparr>task_id = ''0'', columns = ''none''\<rparr> (Some (JsError (Some ''offline'')))) =
     (\<lparr>tasks = [], loading = False, error = None, toasts = [ToastError ''offline'']\<rparr>,
      Inl (JsError (Some ''offline''))) \<and>
   updateTask \<lparr>tasks = [], loading = False, error = None, toasts = []\<rparr> ''4'' ''B''
      (Returns (JsNull :: string Task js_data) (Some (JsError (Some ''offline'')))) =
     (\<lparr>tasks = [], loading = False, error = None, toasts = [ToastError ''offline'']\<rparr>,
      Inl (JsError (Some ''offline''))) \<and>
   updateTask \<lparr>tasks = [], loading = False, error = None, toasts = []\<rparr> ''4'' ''B''
      (Returns (JsArray ([] :: string Task list)) None) =
     (\<lparr>tasks = [], loading = False, error = None,
        toasts = [ToastError ''Task with ID 4 not found'']\<rparr>,
      Inl (JsError (Some ''Task with ID 4 not found''))) \<and>
   deleteTask \<lparr>tasks = ([] :: string Task list), loading = False, error = None, toasts = []\<rparr> ''4''
      (Returns () (Some (JsError (Some ''offline'')))) =
     (\<lparr>tasks = [], loading = False, error = None, toasts = [ToastError ''offline'']\<rparr>,
      Inl (JsError (Some ''offline'')))"
  using failure_notifies_once
    [where s = "\<lparr>tasks = ([] :: string Task list), loading = False, error = None, toasts = []\<rparr>"
       and e = "JsError (Some ''offline'')"
       and ra = "Throws (JsError (Some ''offline''))"
       and rb = "Returns \<lparr>task_id = ''0'', columns = ''none''\<rparr> (Some (JsError (Some ''offline'')))"
       and rc = "Returns JsNull (Some (JsError (Some ''offline'')))"
       and rz = "Returns (JsArray []) None"
       and rd = "Returns () (Some (JsError (Some ''offline'')))"
       and i = "''4''" and task = "''A''" and patch = "''B''"]
  by (simp add: await_query_def errorMessage_def)

text \<open>
  The claim as written fails when updateTask gets no row and no error: the remote store
  gave no message, and the notification is not the fallback of updateTask.
\<close>

theorem failure_notification_counterexample:
  "await_query (Returns (JsArray ([] :: string Task list)) None) = Inr (JsArray []) \<and>
   toasts (fst (updateTask \<lparr>tasks = [], loading = False, error = None, toasts = []\<rparr>
      ''42'' ''B'' (Returns (JsArray ([] :: string Task list)) None))) =
     [ToastError ''Task with ID 42 not found''] \<and>
   toasts (fst (updateTask \<lparr>tasks = [], loading = False, error = None, toasts = []\<rparr>
      ''42'' ''B'' (Returns (JsArray ([] :: string Task list)) None))) \<noteq>
     [ToastError (''Failed to update task '' @ ''42'')]"
  by (simp add: updateTask_def updateTask_try_def await_query_def not_found_def errorMessage_def)

section \<open>useTasks outside a provider\<close>

text \<open>
  C8. useTasks throws when there is no provider around it, and whenever the context
  value is null; inside a TasksProvider it returns the object the provider gave.
\<close>

theorem useTasks_outside_provider_throws:
  "useTasks [] = Inl (JsError (Some ''useTasks has to be used within <TasksContext>'')) \<and>
   useTasks (None # providers) =
     Inl (JsError (Some ''useTasks has to be used within <TasksContext>'')) \<and>
   useTasks (TasksProvider v # providers) = Inr v"
  by (simp add: useTasks_def useContext_def TasksContext_default_def TasksProvider_def)

section \<open>What the dialogs render without a current row\<close>

text \<open>
  C9. With no current row TasksDialogs renders the create drawer and the import dialog
  and nothing else, whatever dialog is open, 'delete' included. The confirm dialog is
  among the elements exactly when there is a current row, and so is the update drawer.
\<close>

theorem TasksDialogs_needs_currentRow:
  "(currentRow c = None \<longrightarrow>
      TasksDialogs_render c =
        [TasksMutateDrawer ''task-create'' (opened c = Some Create) None,
         TasksImportDialog ''tasks-import'' (opened c = Some Import)]) \<and>
   ((\<exists>k b t x. ConfirmDialog k b t x \<in> set (TasksDialogs_render c)) \<longleftrightarrow> currentRow c \<noteq> None) \<and>
   ((\<exists>k b row. TasksMutateDrawer k b (Some row) \<in> set (TasksDialogs_render c)) \<longleftrightarrow>
      currentRow c \<noteq> None) \<and>
   TasksDialogs (TasksProvider c # providers) = Inr (TasksDialogs_render c)"
  by (cases "currentRow c")
    (auto simp: TasksDialogs_render_def TasksDialogs_def useTasks_def useContext_def
      TasksContext_default_def TasksProvider_def)

theorem TasksDialogs_needs_currentRow_witness:
  "TasksDialogs_render
      \<lparr>opened = Some Delete, currentRow = None,
        service = \<lparr>tasks = [\<lparr>task_id = ''1'', columns = ''A''\<rparr>], loading = False,
                    error = None, toasts = []\<rparr>\<rparr> =
     [TasksMutateDrawer ''task-create'' False None, TasksImportDialog ''tasks-import'' False]"
  using TasksDialogs_needs_currentRow
    [where c = "\<lparr>opened = Some Delete, currentRow = None,
        service = \<lparr>tasks = [\<lparr>task_id = ''1'', columns = ''A''\<rparr>], loading = False,
                    error = None, toasts = []\<rparr>\<rparr>"]
  by simp

section \<open>The loading and error cells\<close>

text \<open>
  C10. fetchTasks sets the loading flag before it suspends and has cleared it when it
  completes, whatever the select gave. getTaskById, createTask, updateTask and
  deleteTask leave the loading flag and the error cell as they were, whatever the
  remote call gave.
\<close>

theorem loading_changed_by_fetchTasks_only:
  "loading (fetchTasks_enter s) \<and>
   \<not> loading (fst (fetchTasks_resume s ra)) \<and>
   \<not> loading (fst (fetchTasks s ra)) \<and>
   loading (fst (getTaskById s i rb)) = loading s \<and>
   error (fst (getTaskById s i rb)) = error s \<and>
   loading (fst (createTask s task rb)) = loading s \<and>
   error (fst (createTask s task rb)) = error s \<and>
   loading (fst (updateTask s i patch rc)) = loading s \<and>
   error (fst (updateTask s i patch rc)) = error s \<and>
   loading (fst (deleteTask s i rd)) = loading s \<and>
   error (fst (deleteTask s i rd)) = error s"
  by (auto simp: fetchTasks_def fetchTasks_resume_def fetchTasks_enter_def Let_def
      getTaskById_def createTask_def updateTask_def deleteTask_def split: sum.splits)

end
